theory Spec2Isabelle
  imports Main "HOL-Library.Sublist"
begin

section \<open>The Gemini image adapter (services/geminiService) and its call site (App.tsx)\<close>

text \<open>
  JavaScript strings are modelled as \<^typ>\<open>string\<close> (lists of 8-bit characters); code units
  above 255 are not represented. An optional field of an SDK object (declared
  \<^verbatim>\<open>f?: T\<close>) is a \<^typ>\<open>'a option\<close> whose \<open>None\<close> is the absent field, read as
  \<^verbatim>\<open>undefined\<close>. A result or a piece of component state of type \<^verbatim>\<open>T | null\<close> is
  a \<^typ>\<open>'a option\<close> whose \<open>None\<close> is \<^verbatim>\<open>null\<close>. Where both \<^verbatim>\<open>undefined\<close> and
  \<^verbatim>\<open>null\<close> can occur, in a response outside the declared types, they are kept apart
  (see the three-valued type further down). A promise is modelled by the value it settles
  to: \<open>Inr v\<close> when it resolves with \<open>v\<close>, \<open>Inl e\<close> when it rejects with the thrown value
  \<open>e\<close>. A request that never settles is outside the model.
\<close>

subsection \<open>Data model\<close>

text \<open>The closed union type \<^verbatim>\<open>ArtisticStyle\<close> (line 5).\<close>

datatype ArtisticStyle = watercolor | oil | charcoal | cyberpunk | pencil | popart

text \<open>
  The shapes of the SDK that the adapter reads and writes, as the SDK declares them. Every
  field is optional in the SDK's declarations, and the adapter's own optional chaining
  treats them so; an array holds objects. Only the fields the code touches are kept.
\<close>

record Blob =
  data :: "string option"
  mimeType :: "string option"

record Part =
  inlineData :: "Blob option"
  text' :: "string option"

record Content =
  parts :: "Part list option"

record Candidate =
  content :: "Content option"

record GenerateContentResponse =
  candidates :: "Candidate list option"

text \<open>The argument of \<^verbatim>\<open>ai.models.generateContent\<close>.\<close>

record GenerateContentParameters =
  model :: string
  contents :: Content

text \<open>
  The remote service behind the client handle \<^verbatim>\<open>ai\<close>: what awaiting the call on a request
  gives, a thrown value or a response.
\<close>

type_synonym 'e service = "GenerateContentParameters \<Rightarrow> 'e + GenerateContentResponse"

text \<open>An argument of \<^verbatim>\<open>console.error\<close>: a string or a caught value.\<close>

datatype 'e log_arg = Str string | Caught 'e

text \<open>
  Everything the adapter can reach: the module-level object \<^verbatim>\<open>STYLE_PROMPTS\<close>, the calls
  made to \<^verbatim>\<open>ai.models.generateContent\<close> so far, and the lines written by
  \<^verbatim>\<open>console.error\<close> so far (each line is the list of its arguments).
\<close>

record 'e world =
  catalog :: "ArtisticStyle \<Rightarrow> string"
  calls :: "GenerateContentParameters list"
  console :: "'e log_arg list list"

subsection \<open>The Prompt Catalog\<close>

text \<open>The object literal of lines 7 to 14.\<close>

fun STYLE_PROMPTS :: "ArtisticStyle \<Rightarrow> string" where
  "STYLE_PROMPTS watercolor = ''Transform this image into a vibrant watercolor splash effect sketch. The style should be artistic, with visible brush strokes, paint drips, and a beautiful blend of colors, while maintaining the core subject of the original photo.''"
| "STYLE_PROMPTS oil = ''Transform this image into a classic oil painting. Use thick, visible brush strokes, rich textures, and deep, vibrant colors. The final result should look like a masterpiece on canvas.''"
| "STYLE_PROMPTS charcoal = ''Transform this image into a rough charcoal sketch. Use black and white tones, expressive hand-drawn lines, and smudged shading to create a dramatic, artistic feel.''"
| "STYLE_PROMPTS cyberpunk = ''Transform this image into a neon cyberpunk style. Use high contrast, glowing edges, and a palette dominated by electric pink, blue, and purple. Add a futuristic, digital glitch aesthetic.''"
| "STYLE_PROMPTS pencil = ''Transform this image into a detailed pencil drawing. Use fine graphite lines, realistic shading, and cross-hatching to create a classic, hand-sketched look on paper.''"
| "STYLE_PROMPTS popart = ''Transform this image into a bold pop art style. Use vibrant, flat colors, thick outlines, and halftone dot patterns reminiscent of 1960s comic book art.''"

text \<open>The state of the module once it is loaded, before any call.\<close>

definition module_init :: "'e world" where
  "module_init = \<lparr>catalog = STYLE_PROMPTS, calls = [], console = []\<rparr>"

subsection \<open>JavaScript operators used by the adapter\<close>

text \<open>\<^verbatim>\<open>xs?.[0]\<close>: undefined when \<open>xs\<close> is undefined or empty.\<close>

fun opt_index0 :: "'a list option \<Rightarrow> 'a option" where
  "opt_index0 None = None"
| "opt_index0 (Some []) = None"
| "opt_index0 (Some (x # xs)) = Some x"

text \<open>\<^verbatim>\<open>x?.f\<close> for an optional field \<open>f\<close>: undefined when \<open>x\<close> is undefined, else the field.\<close>

fun opt_field :: "'a option \<Rightarrow> ('a \<Rightarrow> 'b option) \<Rightarrow> 'b option" where
  "opt_field None f = None"
| "opt_field (Some x) f = f x"

text \<open>\<^verbatim>\<open>xs || []\<close>: an array, even an empty one, is truthy.\<close>

fun or_empty :: "'a list option \<Rightarrow> 'a list" where
  "or_empty None = []"
| "or_empty (Some xs) = xs"

text \<open>
  \<^verbatim>\<open>${v}\<close> in a template literal, for an optional string field of the declared shape:
  an absent field reads as \<^verbatim>\<open>undefined\<close> and prints as the word undefined.
\<close>

fun template_hole :: "string option \<Rightarrow> string" where
  "template_hole None = ''undefined''"
| "template_hole (Some s) = s"

subsection \<open>transformToArtisticStyle (lines 16 to 45)\<close>

text \<open>
  The parameter \<open>base64Image\<close> is declared a string; the call site obtains it by array
  destructuring, which yields \<^verbatim>\<open>undefined\<close> when the array is too short, so it is an
  option here.
\<close>

text \<open>The object literal passed to \<^verbatim>\<open>generateContent\<close> (lines 18 to 33).\<close>

definition transformToArtisticStyle_request ::
  "'e world \<Rightarrow> string option \<Rightarrow> string \<Rightarrow> ArtisticStyle \<Rightarrow> GenerateContentParameters" where
  "transformToArtisticStyle_request w base64Image mimeType' style =
     \<lparr>model = ''gemini-2.5-flash-image'',
      contents = \<lparr>parts = Some
        [\<lparr>inlineData = Some \<lparr>data = base64Image, mimeType = Some mimeType'\<rparr>, text' = None\<rparr>,
         \<lparr>inlineData = None, text' = Some (catalog w style)\<rparr>]\<rparr>\<rparr>"

text \<open>The loop of lines 35 to 40, with its early return.\<close>

fun transformToArtisticStyle_scan :: "Part list \<Rightarrow> string option" where
  "transformToArtisticStyle_scan [] = None"
| "transformToArtisticStyle_scan (part # rest) =
     (case inlineData part of
        Some b \<Rightarrow> Some (''data:'' @ template_hole (mimeType b) @ '';base64,'' @ template_hole (data b))
      | None \<Rightarrow> transformToArtisticStyle_scan rest)"

definition transformToArtisticStyle ::
  "'e service \<Rightarrow> 'e world \<Rightarrow> string option \<Rightarrow> string \<Rightarrow> ArtisticStyle
     \<Rightarrow> ('e + string option) \<times> 'e world" where
  "transformToArtisticStyle generateContent w base64Image mimeType' style =
     (let request = transformToArtisticStyle_request w base64Image mimeType' style;
          w1 = w\<lparr>calls := calls w @ [request]\<rparr>
      in case generateContent request of
           Inr response \<Rightarrow>
             (Inr (transformToArtisticStyle_scan
                (or_empty (opt_field (opt_field (opt_index0 (candidates response)) content) parts))),
              w1)
         | Inl error \<Rightarrow>
             (Inl error,
              w1\<lparr>console := console w1 @ [[Str ''Error transforming image:'', Caught error]]\<rparr>))"

subsection \<open>swapOutfit (lines 47 to 76)\<close>

definition swapOutfit_request ::
  "string option \<Rightarrow> string \<Rightarrow> string \<Rightarrow> GenerateContentParameters" where
  "swapOutfit_request base64Image mimeType' outfitDescription =
     \<lparr>model = ''gemini-2.5-flash-image'',
      contents = \<lparr>parts = Some
        [\<lparr>inlineData = Some \<lparr>data = base64Image, mimeType = Some mimeType'\<rparr>, text' = None\<rparr>,
         \<lparr>inlineData = None,
          text' = Some (''Please swap the outfit of the person in this image with the following description: ''
                        @ outfitDescription
                        @ ''. Keep the person's identity, pose, and background as consistent as possible. Only change the clothing.'')\<rparr>]\<rparr>\<rparr>"

fun swapOutfit_scan :: "Part list \<Rightarrow> string option" where
  "swapOutfit_scan [] = None"
| "swapOutfit_scan (part # rest) =
     (case inlineData part of
        Some b \<Rightarrow> Some (''data:'' @ template_hole (mimeType b) @ '';base64,'' @ template_hole (data b))
      | None \<Rightarrow> swapOutfit_scan rest)"

definition swapOutfit ::
  "'e service \<Rightarrow> 'e world \<Rightarrow> string option \<Rightarrow> string \<Rightarrow> string
     \<Rightarrow> ('e + string option) \<times> 'e world" where
  "swapOutfit generateContent w base64Image mimeType' outfitDescription =
     (let request = swapOutfit_request base64Image mimeType' outfitDescription;
          w1 = w\<lparr>calls := calls w @ [request]\<rparr>
      in case generateContent request of
           Inr response \<Rightarrow>
             (Inr (swapOutfit_scan
                (or_empty (opt_field (opt_field (opt_index0 (candidates response)) content) parts))),
              w1)
         | Inl error \<Rightarrow>
             (Inl error,
              w1\<lparr>console := console w1 @ [[Str ''Error swapping outfit:'', Caught error]]\<rparr>))"

subsection \<open>The adapter on responses outside the declared types\<close>

text \<open>
  The declarations promise that a field is absent or holds a value of its type and that
  an array holds objects. Nothing checks this at run time: the awaited value, any field
  and any array element may be \<^verbatim>\<open>undefined\<close> or \<^verbatim>\<open>null\<close>. The same code
  (lines 16 to 76) is given here on such responses. Two things show that do not show on
  the declared shape: reading a property of \<^verbatim>\<open>undefined\<close> or \<^verbatim>\<open>null\<close> throws a
  TypeError, inside the \<^verbatim>\<open>try\<close> block, and a template literal prints \<^verbatim>\<open>null\<close> as
  the word null. Values of a wrong type (a number where an array is declared) are not
  represented.
\<close>

datatype 'a nullable = Undefined | Null | Defined 'a

record AnyBlob =
  any_data :: "string nullable"
  any_mimeType :: "string nullable"

record AnyPart =
  any_inlineData :: "AnyBlob nullable"

record AnyContent =
  any_parts :: "AnyPart nullable list nullable"

record AnyCandidate =
  any_content :: "AnyContent nullable"

record AnyResponse =
  any_candidates :: "AnyCandidate nullable list nullable"

type_synonym 'e any_service = "GenerateContentParameters \<Rightarrow> 'e + AnyResponse nullable"

text \<open>What the catch block can catch: the cause of a failed request, or a TypeError.\<close>

datatype 'e thrown = Cause 'e | TypeError

text \<open>A value is nullish when it is \<^verbatim>\<open>undefined\<close> or \<^verbatim>\<open>null\<close>.\<close>

fun nullish :: "'a nullable \<Rightarrow> bool" where
  "nullish Undefined = True"
| "nullish Null = True"
| "nullish (Defined x) = False"

text \<open>\<^verbatim>\<open>xs?.[0]\<close>: undefined when \<open>xs\<close> is nullish or empty, else the first element.\<close>

fun nullable_index0 :: "'a nullable list nullable \<Rightarrow> 'a nullable" where
  "nullable_index0 Undefined = Undefined"
| "nullable_index0 Null = Undefined"
| "nullable_index0 (Defined []) = Undefined"
| "nullable_index0 (Defined (x # xs)) = x"

text \<open>\<^verbatim>\<open>x?.f\<close>: undefined when \<open>x\<close> is nullish, else the field.\<close>

fun nullable_field :: "'a nullable \<Rightarrow> ('a \<Rightarrow> 'b nullable) \<Rightarrow> 'b nullable" where
  "nullable_field Undefined f = Undefined"
| "nullable_field Null f = Undefined"
| "nullable_field (Defined x) f = f x"

text \<open>\<^verbatim>\<open>xs || []\<close>: a nullish value is falsy, an array is truthy.\<close>

fun nullable_or_empty :: "'a list nullable \<Rightarrow> 'a list" where
  "nullable_or_empty Undefined = []"
| "nullable_or_empty Null = []"
| "nullable_or_empty (Defined xs) = xs"

text \<open>\<^verbatim>\<open>${v}\<close> in a template literal.\<close>

fun nullable_template_hole :: "string nullable \<Rightarrow> string" where
  "nullable_template_hole Undefined = ''undefined''"
| "nullable_template_hole Null = ''null''"
| "nullable_template_hole (Defined s) = s"

text \<open>
  The loop of lines 35 to 40: \<^verbatim>\<open>part.inlineData\<close> is read unguarded, so a nullish
  element throws; an object is truthy, a nullish \<^verbatim>\<open>inlineData\<close> is not.
\<close>

fun transformToArtisticStyle_scan_any :: "AnyPart nullable list \<Rightarrow> 'e thrown + string option" where
  "transformToArtisticStyle_scan_any [] = Inr None"
| "transformToArtisticStyle_scan_any (Undefined # rest) = Inl TypeError"
| "transformToArtisticStyle_scan_any (Null # rest) = Inl TypeError"
| "transformToArtisticStyle_scan_any (Defined part # rest) =
     (case any_inlineData part of
        Defined b \<Rightarrow> Inr (Some (''data:'' @ nullable_template_hole (any_mimeType b)
                                 @ '';base64,'' @ nullable_template_hole (any_data b)))
      | Undefined \<Rightarrow> transformToArtisticStyle_scan_any rest
      | Null \<Rightarrow> transformToArtisticStyle_scan_any rest)"

text \<open>
  Lines 16 to 45. \<^verbatim>\<open>response.candidates\<close> is read unguarded too. Whatever is thrown in
  the \<^verbatim>\<open>try\<close> block is logged and rethrown.
\<close>

definition transformToArtisticStyle_any ::
  "'e any_service \<Rightarrow> 'e thrown world \<Rightarrow> string option \<Rightarrow> string \<Rightarrow> ArtisticStyle
     \<Rightarrow> ('e thrown + string option) \<times> 'e thrown world" where
  "transformToArtisticStyle_any generateContent w base64Image mimeType' style =
     (let request = transformToArtisticStyle_request w base64Image mimeType' style;
          w1 = w\<lparr>calls := calls w @ [request]\<rparr>;
          attempt =
            (case generateContent request of
               Inl cause \<Rightarrow> Inl (Cause cause)
             | Inr awaited \<Rightarrow>
                 (case awaited of
                    Undefined \<Rightarrow> Inl TypeError
                  | Null \<Rightarrow> Inl TypeError
                  | Defined response \<Rightarrow>
                      transformToArtisticStyle_scan_any
                        (nullable_or_empty
                          (nullable_field
                            (nullable_field (nullable_index0 (any_candidates response)) any_content)
                            any_parts))))
      in case attempt of
           Inr result \<Rightarrow> (Inr result, w1)
         | Inl error \<Rightarrow>
             (Inl error,
              w1\<lparr>console := console w1 @ [[Str ''Error transforming image:'', Caught error]]\<rparr>))"

text \<open>The loop of lines 66 to 71 and the function of lines 47 to 76, likewise.\<close>

fun swapOutfit_scan_any :: "AnyPart nullable list \<Rightarrow> 'e thrown + string option" where
  "swapOutfit_scan_any [] = Inr None"
| "swapOutfit_scan_any (Undefined # rest) = Inl TypeError"
| "swapOutfit_scan_any (Null # rest) = Inl TypeError"
| "swapOutfit_scan_any (Defined part # rest) =
     (case any_inlineData part of
        Defined b \<Rightarrow> Inr (Some (''data:'' @ nullable_template_hole (any_mimeType b)
                                 @ '';base64,'' @ nullable_template_hole (any_data b)))
      | Undefined \<Rightarrow> swapOutfit_scan_any rest
      | Null \<Rightarrow> swapOutfit_scan_any rest)"

definition swapOutfit_any ::
  "'e any_service \<Rightarrow> 'e thrown world \<Rightarrow> string option \<Rightarrow> string \<Rightarrow> string
     \<Rightarrow> ('e thrown + string option) \<times> 'e thrown world" where
  "swapOutfit_any generateContent w base64Image mimeType' outfitDescription =
     (let request = swapOutfit_request base64Image mimeType' outfitDescription;
          w1 = w\<lparr>calls := calls w @ [request]\<rparr>;
          attempt =
            (case generateContent request of
               Inl cause \<Rightarrow> Inl (Cause cause)
             | Inr awaited \<Rightarrow>
                 (case awaited of
                    Undefined \<Rightarrow> Inl TypeError
                  | Null \<Rightarrow> Inl TypeError
                  | Defined response \<Rightarrow>
                      swapOutfit_scan_any
                        (nullable_or_empty
                          (nullable_field
                            (nullable_field (nullable_index0 (any_candidates response)) any_content)
                            any_parts))))
      in case attempt of
           Inr result \<Rightarrow> (Inr result, w1)
         | Inl error \<Rightarrow>
             (Inl error,
              w1\<lparr>console := console w1 @ [[Str ''Error swapping outfit:'', Caught error]]\<rparr>))"

text \<open>
  A response of the declared shape, seen as one of the wider shape: an absent field is
  \<^verbatim>\<open>undefined\<close>, every array element is an object.
\<close>

fun of_option :: "'a option \<Rightarrow> 'a nullable" where
  "of_option None = Undefined"
| "of_option (Some x) = Defined x"

definition widen_blob :: "Blob \<Rightarrow> AnyBlob" where
  "widen_blob b = \<lparr>any_data = of_option (data b), any_mimeType = of_option (mimeType b)\<rparr>"

definition widen_part :: "Part \<Rightarrow> AnyPart" where
  "widen_part p = \<lparr>any_inlineData = of_option (map_option widen_blob (inlineData p))\<rparr>"

definition widen_content :: "Content \<Rightarrow> AnyContent" where
  "widen_content ct =
     \<lparr>any_parts = of_option (map_option (map (\<lambda>p. Defined (widen_part p))) (parts ct))\<rparr>"

definition widen_candidate :: "Candidate \<Rightarrow> AnyCandidate" where
  "widen_candidate c = \<lparr>any_content = of_option (map_option widen_content (content c))\<rparr>"

definition widen_response :: "GenerateContentResponse \<Rightarrow> AnyResponse" where
  "widen_response r =
     \<lparr>any_candidates =
        of_option (map_option (map (\<lambda>c. Defined (widen_candidate c))) (candidates r))\<rparr>"

definition widen_service :: "'e service \<Rightarrow> 'e any_service" where
  "widen_service generateContent request =
     (case generateContent request of
        Inl cause \<Rightarrow> Inl cause
      | Inr response \<Rightarrow> Inr (Defined (widen_response response)))"

subsection \<open>The call site: handleTransform (App.tsx, lines 55 to 88)\<close>

text \<open>The component state held by the \<^verbatim>\<open>useState\<close> hooks (lines 28 to 34).\<close>

datatype Mode = mode_style | mode_outfit

record AppState =
  originalImage :: "string option"
  transformedImage :: "string option"
  selectedStyle :: ArtisticStyle
  outfitDescription :: string
  mode :: Mode
  isProcessing :: bool
  error :: "string option"

text \<open>
  \<^verbatim>\<open>s.split(',')\<close>. The array it returns always has a first element, so the result is
  that element paired with the list of the remaining pieces.
\<close>

fun split_comma :: "string \<Rightarrow> string \<times> string list" where
  "split_comma [] = ([], [])"
| "split_comma (c # cs) =
     (let (x, xs) = split_comma cs
      in if c = CHR '','' then ([], x # xs) else (c # x, xs))"

text \<open>
  \<^verbatim>\<open>s.match(/:(.*?);/)?.[1]\<close>: the leftmost colon from which a semicolon is reached without
  crossing a line terminator; the captured group is the text up to the first such
  semicolon. \<open>lazy_to_semicolon\<close> is the part of the pattern after the colon.
\<close>

definition is_line_terminator :: "char \<Rightarrow> bool" where
  "is_line_terminator c = (c = CHR 0x0A \<or> c = CHR 0x0D)"

fun lazy_to_semicolon :: "string \<Rightarrow> string option" where
  "lazy_to_semicolon [] = None"
| "lazy_to_semicolon (c # cs) =
     (if c = CHR '';'' then Some []
      else if is_line_terminator c then None
      else map_option ((#) c) (lazy_to_semicolon cs))"

fun match_colon_semicolon :: "string \<Rightarrow> string option" where
  "match_colon_semicolon [] = None"
| "match_colon_semicolon (c # cs) =
     (if c = CHR '':'' then
        (case lazy_to_semicolon cs of
           Some g \<Rightarrow> Some g
         | None \<Rightarrow> match_colon_semicolon cs)
      else match_colon_semicolon cs)"

text \<open>
  \<^verbatim>\<open>s.trim()\<close>: white space and line terminators are removed at both ends. Of the
  characters JavaScript removes, these fit in eight bits.
\<close>

definition is_white_space :: "char \<Rightarrow> bool" where
  "is_white_space c =
     (c = CHR 0x09 \<or> c = CHR 0x0A \<or> c = CHR 0x0B \<or> c = CHR 0x0C \<or> c = CHR 0x0D
      \<or> c = CHR 0x20 \<or> c = CHR 0xA0)"

definition trim :: "string \<Rightarrow> string" where
  "trim s = rev (dropWhile is_white_space (rev (dropWhile is_white_space s)))"

text \<open>A style identifier printed in a template literal: the string it is.\<close>

fun style_text :: "ArtisticStyle \<Rightarrow> string" where
  "style_text watercolor = ''watercolor''"
| "style_text oil = ''oil''"
| "style_text charcoal = ''charcoal''"
| "style_text cyberpunk = ''cyberpunk''"
| "style_text pencil = ''pencil''"
| "style_text popart = ''popart''"

text \<open>
  Lines 77 to 87: what follows the awaited adapter call. A non-null, non-empty result is
  shown; a null one gives the generic message; a rejection is caught, reported and logged.
  The \<^verbatim>\<open>finally\<close> block clears the in-flight flag on every path.
\<close>

definition handleTransform_settle ::
  "AppState \<Rightarrow> ('e + string option) \<times> 'e world \<Rightarrow> AppState \<times> 'e world" where
  "handleTransform_settle s outcome =
     (case outcome of
        (Inr result, w) \<Rightarrow>
          (if result \<noteq> None \<and> result \<noteq> Some []
           then (s\<lparr>transformedImage := result, isProcessing := False\<rparr>, w)
           else (s\<lparr>error := Some (''Failed to generate the ''
                     @ (if mode s = mode_style then style_text (selectedStyle s) else ''outfit swap'')
                     @ ''. Please try again.''),
                   isProcessing := False\<rparr>, w))
      | (Inl err, w) \<Rightarrow>
          (s\<lparr>error := Some ''An error occurred while processing the image. Please check your connection and try again.'',
             isProcessing := False\<rparr>,
           w\<lparr>console := console w @ [[Caught err]]\<rparr>))"

fun handleTransform :: "'e service \<Rightarrow> AppState \<times> 'e world \<Rightarrow> AppState \<times> 'e world" where
  "handleTransform generateContent (s, w) =
     (case originalImage s of
        None \<Rightarrow> (s, w)
      | Some original \<Rightarrow>
          if original = [] then (s, w)
          else
            let s1 = s\<lparr>isProcessing := True, error := None\<rparr>;
                (mimeInfo, more) = split_comma original;
                base64Data = opt_index0 (Some more);
                mimeType' = (case match_colon_semicolon mimeInfo of
                               None \<Rightarrow> ''image/png''
                             | Some g \<Rightarrow> if g = [] then ''image/png'' else g)
            in if mode s = mode_style
               then handleTransform_settle s1
                      (transformToArtisticStyle generateContent w base64Data mimeType' (selectedStyle s))
               else if trim (outfitDescription s) = []
               then (s1\<lparr>error := Some ''Please provide an outfit description.'',
                        isProcessing := False\<rparr>, w)
               else handleTransform_settle s1
                      (swapOutfit generateContent w base64Data mimeType' (outfitDescription s)))"

subsection \<open>Fixtures\<close>

text \<open>A service that answers every request with one response, and one that fails.\<close>

definition respond_with :: "GenerateContentResponse \<Rightarrow> 'e service" where
  "respond_with response request = Inr response"

definition respond_with_any :: "AnyResponse nullable \<Rightarrow> 'e any_service" where
  "respond_with_any awaited request = Inr awaited"

definition fail_with :: "'e \<Rightarrow> 'e service" where
  "fail_with cause request = Inl cause"

definition text_part :: "string \<Rightarrow> Part" where
  "text_part t = \<lparr>inlineData = None, text' = Some t\<rparr>"

definition image_part :: "string \<Rightarrow> string \<Rightarrow> Part" where
  "image_part m d = \<lparr>inlineData = Some \<lparr>data = Some d, mimeType = Some m\<rparr>, text' = None\<rparr>"

definition response_of :: "Part list \<Rightarrow> GenerateContentResponse" where
  "response_of ps = \<lparr>candidates = Some [\<lparr>content = Some \<lparr>parts = Some ps\<rparr>\<rparr>]\<rparr>"

section \<open>Properties\<close>

subsection \<open>Helper lemmas: the two loops\<close>

lemma transformToArtisticStyle_scan_first:
  "\<forall>q\<in>set pre. inlineData q = None \<Longrightarrow> inlineData p = Some b \<Longrightarrow>
   transformToArtisticStyle_scan (pre @ p # post) =
     Some (''data:'' @ template_hole (mimeType b) @ '';base64,'' @ template_hole (data b))"
  by (induction pre) simp_all

lemma swapOutfit_scan_first:
  "\<forall>q\<in>set pre. inlineData q = None \<Longrightarrow> inlineData p = Some b \<Longrightarrow>
   swapOutfit_scan (pre @ p # post) =
     Some (''data:'' @ template_hole (mimeType b) @ '';base64,'' @ template_hole (data b))"
  by (induction pre) simp_all

lemma transformToArtisticStyle_scan_none:
  "\<forall>q\<in>set ps. inlineData q = None \<Longrightarrow> transformToArtisticStyle_scan ps = None"
  by (induction ps) simp_all

lemma swapOutfit_scan_none:
  "\<forall>q\<in>set ps. inlineData q = None \<Longrightarrow> swapOutfit_scan ps = None"
  by (induction ps) simp_all

lemma scans_agree: "transformToArtisticStyle_scan ps = swapOutfit_scan ps"
  by (induction ps) (simp_all split: option.splits)

subsection \<open>Helper lemmas: one call of each operation\<close>

lemma transformToArtisticStyle_resolved:
  "generateContent (transformToArtisticStyle_request w base64Image mt style) = Inr response \<Longrightarrow>
   transformToArtisticStyle generateContent w base64Image mt style =
     (Inr (transformToArtisticStyle_scan
        (or_empty (opt_field (opt_field (opt_index0 (candidates response)) content) parts))),
      w\<lparr>calls := calls w @ [transformToArtisticStyle_request w base64Image mt style]\<rparr>)"
  by (simp add: transformToArtisticStyle_def Let_def)

lemma swapOutfit_resolved:
  "generateContent (swapOutfit_request base64Image mt description) = Inr response \<Longrightarrow>
   swapOutfit generateContent w base64Image mt description =
     (Inr (swapOutfit_scan
        (or_empty (opt_field (opt_field (opt_index0 (candidates response)) content) parts))),
      w\<lparr>calls := calls w @ [swapOutfit_request base64Image mt description]\<rparr>)"
  by (simp add: swapOutfit_def Let_def)

lemma transformToArtisticStyle_rejected:
  "generateContent (transformToArtisticStyle_request w base64Image mt style) = Inl cause \<Longrightarrow>
   transformToArtisticStyle generateContent w base64Image mt style =
     (Inl cause,
      w\<lparr>calls := calls w @ [transformToArtisticStyle_request w base64Image mt style],
        console := console w @ [[Str ''Error transforming image:'', Caught cause]]\<rparr>)"
  by (simp add: transformToArtisticStyle_def Let_def)

lemma swapOutfit_rejected:
  "generateContent (swapOutfit_request base64Image mt description) = Inl cause \<Longrightarrow>
   swapOutfit generateContent w base64Image mt description =
     (Inl cause,
      w\<lparr>calls := calls w @ [swapOutfit_request base64Image mt description],
        console := console w @ [[Str ''Error swapping outfit:'', Caught cause]]\<rparr>)"
  by (simp add: swapOutfit_def Let_def)

lemma transformToArtisticStyle_calls:
  "calls (snd (transformToArtisticStyle generateContent w base64Image mt style)) =
     calls w @ [transformToArtisticStyle_request w base64Image mt style]"
  by (cases "generateContent (transformToArtisticStyle_request w base64Image mt style)")
     (simp_all add: transformToArtisticStyle_rejected transformToArtisticStyle_resolved)

lemma swapOutfit_calls:
  "calls (snd (swapOutfit generateContent w base64Image mt description)) =
     calls w @ [swapOutfit_request base64Image mt description]"
  by (cases "generateContent (swapOutfit_request base64Image mt description)")
     (simp_all add: swapOutfit_rejected swapOutfit_resolved)

lemma transformToArtisticStyle_catalog:
  "catalog (snd (transformToArtisticStyle generateContent w base64Image mt style)) = catalog w"
  by (cases "generateContent (transformToArtisticStyle_request w base64Image mt style)")
     (simp_all add: transformToArtisticStyle_rejected transformToArtisticStyle_resolved)

lemma swapOutfit_catalog:
  "catalog (snd (swapOutfit generateContent w base64Image mt description)) = catalog w"
  by (cases "generateContent (swapOutfit_request base64Image mt description)")
     (simp_all add: swapOutfit_rejected swapOutfit_resolved)

lemma transformToArtisticStyle_console:
  "console (snd (transformToArtisticStyle generateContent w base64Image mt style)) =
     (case generateContent (transformToArtisticStyle_request w base64Image mt style) of
        Inl cause \<Rightarrow> console w @ [[Str ''Error transforming image:'', Caught cause]]
      | Inr response \<Rightarrow> console w)"
  by (cases "generateContent (transformToArtisticStyle_request w base64Image mt style)")
     (simp_all add: transformToArtisticStyle_rejected transformToArtisticStyle_resolved)

lemma swapOutfit_console:
  "console (snd (swapOutfit generateContent w base64Image mt description)) =
     (case generateContent (swapOutfit_request base64Image mt description) of
        Inl cause \<Rightarrow> console w @ [[Str ''Error swapping outfit:'', Caught cause]]
      | Inr response \<Rightarrow> console w)"
  by (cases "generateContent (swapOutfit_request base64Image mt description)")
     (simp_all add: swapOutfit_rejected swapOutfit_resolved)

lemma transformToArtisticStyle_history_free:
  "fst (transformToArtisticStyle generateContent (w\<lparr>calls := cs, console := ls\<rparr>) base64Image mt style)
     = fst (transformToArtisticStyle generateContent w base64Image mt style)"
  by (simp add: transformToArtisticStyle_def transformToArtisticStyle_request_def Let_def
           split: sum.splits)

lemma swapOutfit_history_free:
  "fst (swapOutfit generateContent (w\<lparr>catalog := k, calls := cs, console := ls\<rparr>) base64Image mt description)
     = fst (swapOutfit generateContent w base64Image mt description)"
  by (simp add: swapOutfit_def Let_def split: sum.splits)

lemma first_candidate_parts:
  "candidates response = Some (c # cs) \<Longrightarrow> content c = Some ct \<Longrightarrow> parts ct = Some ps \<Longrightarrow>
   or_empty (opt_field (opt_field (opt_index0 (candidates response)) content) parts) = ps"
  by simp

subsection \<open>Extraction of the image\<close>

text \<open>
  C1: when the response's first candidate has parts of which at least one carries inline
  data, both operations return the data URI built from the first such part, whatever
  parts without inline data stand before it: the media type is the one that part
  declares and the payload is that part's bytes.
\<close>

theorem C1_first_inline_image_returned:
  assumes "generateContent (transformToArtisticStyle_request w base64Image mt style) = Inr response"
    and "generateContent (swapOutfit_request base64Image mt description) = Inr response"
    and "candidates response = Some (c # cs)"
    and "content c = Some ct"
    and "parts ct = Some (pre @ p # post)"
    and "\<forall>q\<in>set pre. inlineData q = None"
    and "inlineData p = Some b"
    and "mimeType b = Some m"
    and "data b = Some d"
  shows "fst (transformToArtisticStyle generateContent w base64Image mt style)
           = Inr (Some (''data:'' @ m @ '';base64,'' @ d))
       \<and> fst (swapOutfit generateContent w base64Image mt description)
           = Inr (Some (''data:'' @ m @ '';base64,'' @ d))"
proof
  have ps: "or_empty (opt_field (opt_field (opt_index0 (candidates response)) content) parts)
              = pre @ p # post"
    using assms(3-5) by (rule first_candidate_parts)
  show "fst (transformToArtisticStyle generateContent w base64Image mt style)
           = Inr (Some (''data:'' @ m @ '';base64,'' @ d))"
    using assms(1) ps transformToArtisticStyle_scan_first[OF assms(6,7)] assms(8,9)
    by (simp add: transformToArtisticStyle_resolved)
  show "fst (swapOutfit generateContent w base64Image mt description)
           = Inr (Some (''data:'' @ m @ '';base64,'' @ d))"
    using assms(2) ps swapOutfit_scan_first[OF assms(6,7)] assms(8,9)
    by (simp add: swapOutfit_resolved)
qed

theorem C1_first_inline_image_returned_witness:
  "fst (transformToArtisticStyle
          (respond_with (response_of [text_part ''Here you go'', image_part ''image/png'' ''QUJD'',
                                       image_part ''image/jpeg'' ''WFla'']))
          (module_init :: string world) (Some ''AAAA'') ''image/jpeg'' oil)
     = Inr (Some ''data:image/png;base64,QUJD'')
   \<and> fst (swapOutfit
          (respond_with (response_of [text_part ''Here you go'', image_part ''image/png'' ''QUJD'',
                                       image_part ''image/jpeg'' ''WFla'']))
          (module_init :: string world) (Some ''AAAA'') ''image/jpeg'' ''a red coat'')
     = Inr (Some ''data:image/png;base64,QUJD'')"
proof -
  let ?ps = "[text_part ''Here you go'', image_part ''image/png'' ''QUJD'',
              image_part ''image/jpeg'' ''WFla'']"
  have "fst (transformToArtisticStyle (respond_with (response_of ?ps))
               (module_init :: string world) (Some ''AAAA'') ''image/jpeg'' oil)
          = Inr (Some (''data:'' @ ''image/png'' @ '';base64,'' @ ''QUJD''))
      \<and> fst (swapOutfit (respond_with (response_of ?ps))
               (module_init :: string world) (Some ''AAAA'') ''image/jpeg'' ''a red coat'')
          = Inr (Some (''data:'' @ ''image/png'' @ '';base64,'' @ ''QUJD''))"
  proof (rule C1_first_inline_image_returned
      [where response = "response_of ?ps"
         and c = "\<lparr>content = Some \<lparr>parts = Some ?ps\<rparr>\<rparr>" and cs = "[]"
         and ct = "\<lparr>parts = Some ?ps\<rparr>"
         and pre = "[text_part ''Here you go'']"
         and p = "image_part ''image/png'' ''QUJD''"
         and post = "[image_part ''image/jpeg'' ''WFla'']"
         and b = "\<lparr>data = Some ''QUJD'', mimeType = Some ''image/png''\<rparr>"])
  qed (simp_all add: respond_with_def response_of_def text_part_def image_part_def)
  then show ?thesis by simp
qed

text \<open>
  C2: when the first candidate's parts hold no part with inline data, both operations
  resolve with null; they do not reject.
\<close>

theorem C2_no_inline_image_gives_null:
  assumes "generateContent (transformToArtisticStyle_request w base64Image mt style) = Inr response"
    and "generateContent (swapOutfit_request base64Image mt description) = Inr response"
    and "candidates response = Some (c # cs)"
    and "content c = Some ct"
    and "parts ct = Some ps"
    and "\<forall>q\<in>set ps. inlineData q = None"
  shows "fst (transformToArtisticStyle generateContent w base64Image mt style) = Inr None
       \<and> fst (swapOutfit generateContent w base64Image mt description) = Inr None"
proof
  have ps: "or_empty (opt_field (opt_field (opt_index0 (candidates response)) content) parts) = ps"
    using assms(3-5) by (rule first_candidate_parts)
  show "fst (transformToArtisticStyle generateContent w base64Image mt style) = Inr None"
    using assms(1) ps transformToArtisticStyle_scan_none[OF assms(6)]
    by (simp add: transformToArtisticStyle_resolved)
  show "fst (swapOutfit generateContent w base64Image mt description) = Inr None"
    using assms(2) ps swapOutfit_scan_none[OF assms(6)]
    by (simp add: swapOutfit_resolved)
qed

theorem C2_no_inline_image_gives_null_witness:
  "fst (transformToArtisticStyle
          (respond_with (response_of [text_part ''I cannot do that'', text_part ''Sorry'']))
          (module_init :: string world) (Some ''AAAA'') ''image/png'' charcoal) = Inr None
   \<and> fst (swapOutfit
          (respond_with (response_of [text_part ''I cannot do that'', text_part ''Sorry'']))
          (module_init :: string world) (Some ''AAAA'') ''image/png'' ''a blue suit'') = Inr None"
proof (rule C2_no_inline_image_gives_null
    [where response = "response_of [text_part ''I cannot do that'', text_part ''Sorry'']"
       and c = "\<lparr>content = Some \<lparr>parts = Some [text_part ''I cannot do that'', text_part ''Sorry'']\<rparr>\<rparr>"
       and cs = "[]"
       and ct = "\<lparr>parts = Some [text_part ''I cannot do that'', text_part ''Sorry'']\<rparr>"
       and ps = "[text_part ''I cannot do that'', text_part ''Sorry'']"])
qed (simp_all add: respond_with_def response_of_def text_part_def)

subsection \<open>Failure of the remote request\<close>

text \<open>
  C3: when issuing or awaiting the remote request fails with some cause, both operations
  reject with that very cause; exactly one request has been made (no retry), the cause
  has been logged, and no value is returned in its place.
\<close>

theorem C3_failure_propagates_unchanged:
  assumes "generateContent (transformToArtisticStyle_request w base64Image mt style) = Inl cause1"
    and "generateContent (swapOutfit_request base64Image mt description) = Inl cause2"
  shows "fst (transformToArtisticStyle generateContent w base64Image mt style) = Inl cause1
       \<and> calls (snd (transformToArtisticStyle generateContent w base64Image mt style))
           = calls w @ [transformToArtisticStyle_request w base64Image mt style]
       \<and> console (snd (transformToArtisticStyle generateContent w base64Image mt style))
           = console w @ [[Str ''Error transforming image:'', Caught cause1]]
       \<and> fst (swapOutfit generateContent w base64Image mt description) = Inl cause2
       \<and> calls (snd (swapOutfit generateContent w base64Image mt description))
           = calls w @ [swapOutfit_request base64Image mt description]
       \<and> console (snd (swapOutfit generateContent w base64Image mt description))
           = console w @ [[Str ''Error swapping outfit:'', Caught cause2]]"
  using assms by (simp add: transformToArtisticStyle_rejected swapOutfit_rejected)

theorem C3_failure_propagates_unchanged_witness:
  "fst (transformToArtisticStyle (fail_with ''ECONNRESET'') module_init (Some ''AAAA'') ''image/png'' pencil)
     = Inl ''ECONNRESET''
   \<and> length (calls (snd (transformToArtisticStyle (fail_with ''ECONNRESET'') module_init
                          (Some ''AAAA'') ''image/png'' pencil))) = 1
   \<and> fst (swapOutfit (fail_with ''ECONNRESET'') module_init (Some ''AAAA'') ''image/png'' ''a hat'')
     = Inl ''ECONNRESET''
   \<and> length (calls (snd (swapOutfit (fail_with ''ECONNRESET'') module_init
                          (Some ''AAAA'') ''image/png'' ''a hat''))) = 1"
proof -
  have h1: "fail_with ''ECONNRESET''
              (transformToArtisticStyle_request (module_init :: string world) (Some ''AAAA'') ''image/png'' pencil)
            = Inl ''ECONNRESET''"
    by (simp add: fail_with_def)
  have h2: "fail_with ''ECONNRESET'' (swapOutfit_request (Some ''AAAA'') ''image/png'' ''a hat'')
            = Inl ''ECONNRESET''"
    by (simp add: fail_with_def)
  show ?thesis
    using C3_failure_propagates_unchanged[OF h1 h2] by (simp add: module_init_def)
qed

subsection \<open>The outbound request\<close>

text \<open>
  C5: the instruction text swapOutfit sends is the fixed template with the caller's
  description put in unchanged: the description is a contiguous piece of the text, and
  the text around it asks to keep the person's identity, pose and background and to
  change only the clothing.
\<close>

theorem C5_outfit_description_interpolated_verbatim:
  "(let instruction =
          ''Please swap the outfit of the person in this image with the following description: ''
          @ description
          @ ''. Keep the person's identity, pose, and background as consistent as possible. Only change the clothing.''
    in calls (snd (swapOutfit generateContent w base64Image mt description))
         = calls w @ [swapOutfit_request base64Image mt description]
     \<and> map text' (or_empty (parts (contents (swapOutfit_request base64Image mt description))))
         = [None, Some instruction]
     \<and> sublist description instruction
     \<and> sublist ''Keep the person's identity, pose, and background as consistent as possible.'' instruction
     \<and> sublist ''Only change the clothing.'' instruction)"
proof -
  let ?head = "''Please swap the outfit of the person in this image with the following description: ''"
  let ?tail = "''. Keep the person's identity, pose, and background as consistent as possible. Only change the clothing.''"
  have sent: "calls (snd (swapOutfit generateContent w base64Image mt description))
         = calls w @ [swapOutfit_request base64Image mt description]"
    by (rule swapOutfit_calls)
  have instr: "map text' (or_empty (parts (contents (swapOutfit_request base64Image mt description))))
         = [None, Some (?head @ description @ ?tail)]"
    by (simp add: swapOutfit_request_def)
  have verbatim: "sublist description (?head @ description @ ?tail)"
    by (rule sublist_appendI)
  have e1: "?head @ description @ ?tail
              = (?head @ description @ ''. '')
                @ ''Keep the person's identity, pose, and background as consistent as possible.''
                @ '' Only change the clothing.''"
    by simp
  have keep: "sublist ''Keep the person's identity, pose, and background as consistent as possible.''
                (?head @ description @ ?tail)"
    by (subst e1) (rule sublist_appendI)
  have e2: "?head @ description @ ?tail
              = (?head @ description
                 @ ''. Keep the person's identity, pose, and background as consistent as possible. '')
                @ ''Only change the clothing.''"
    by simp
  have only: "sublist ''Only change the clothing.'' (?head @ description @ ?tail)"
    by (subst e2) (rule sublist_append_leftI)
  show ?thesis
    unfolding Let_def using sent instr verbatim keep only by blast
qed

text \<open>
  C6: every call of either operation makes one call to the service, and the request it
  passes names the model gemini-2.5-flash-image and carries exactly two parts in this
  order: the inline part with the caller's image bytes and media type, then the text part
  with the instruction (the catalog's entry for the style, or the outfit template).
\<close>

theorem C6_request_has_image_part_then_text_part:
  "calls (snd (transformToArtisticStyle generateContent w base64Image mt style))
     = calls w @
       [\<lparr>model = ''gemini-2.5-flash-image'',
         contents = \<lparr>parts = Some
           [\<lparr>inlineData = Some \<lparr>data = base64Image, mimeType = Some mt\<rparr>, text' = None\<rparr>,
            \<lparr>inlineData = None, text' = Some (catalog w style)\<rparr>]\<rparr>\<rparr>]
   \<and> calls (snd (swapOutfit generateContent w base64Image mt description))
     = calls w @
       [\<lparr>model = ''gemini-2.5-flash-image'',
         contents = \<lparr>parts = Some
           [\<lparr>inlineData = Some \<lparr>data = base64Image, mimeType = Some mt\<rparr>, text' = None\<rparr>,
            \<lparr>inlineData = None,
             text' = Some (''Please swap the outfit of the person in this image with the following description: ''
                           @ description
                           @ ''. Keep the person's identity, pose, and background as consistent as possible. Only change the clothing.'')\<rparr>]\<rparr>\<rparr>]"
proof
  show "calls (snd (transformToArtisticStyle generateContent w base64Image mt style))
     = calls w @
       [\<lparr>model = ''gemini-2.5-flash-image'',
         contents = \<lparr>parts = Some
           [\<lparr>inlineData = Some \<lparr>data = base64Image, mimeType = Some mt\<rparr>, text' = None\<rparr>,
            \<lparr>inlineData = None, text' = Some (catalog w style)\<rparr>]\<rparr>\<rparr>]"
    unfolding transformToArtisticStyle_calls transformToArtisticStyle_request_def by (rule refl)
  show "calls (snd (swapOutfit generateContent w base64Image mt description))
     = calls w @
       [\<lparr>model = ''gemini-2.5-flash-image'',
         contents = \<lparr>parts = Some
           [\<lparr>inlineData = Some \<lparr>data = base64Image, mimeType = Some mt\<rparr>, text' = None\<rparr>,
            \<lparr>inlineData = None,
             text' = Some (''Please swap the outfit of the person in this image with the following description: ''
                           @ description
                           @ ''. Keep the person's identity, pose, and background as consistent as possible. Only change the clothing.'')\<rparr>]\<rparr>\<rparr>]"
    unfolding swapOutfit_calls swapOutfit_request_def by (rule refl)
qed

subsection \<open>Helper lemmas: responses outside the declared types\<close>

lemma transformToArtisticStyle_any_resolved:
  "(generateContent :: 'e any_service) (transformToArtisticStyle_request w base64Image mt style)
     = Inr (Defined response) \<Longrightarrow>
   transformToArtisticStyle_scan_any
     (nullable_or_empty
       (nullable_field (nullable_field (nullable_index0 (any_candidates response)) any_content)
          any_parts)) = (Inr result :: 'e thrown + string option) \<Longrightarrow>
   fst (transformToArtisticStyle_any generateContent w base64Image mt style) = Inr result"
  by (simp add: transformToArtisticStyle_any_def Let_def)

lemma swapOutfit_any_resolved:
  "(generateContent :: 'e any_service) (swapOutfit_request base64Image mt description)
     = Inr (Defined response) \<Longrightarrow>
   swapOutfit_scan_any
     (nullable_or_empty
       (nullable_field (nullable_field (nullable_index0 (any_candidates response)) any_content)
          any_parts)) = (Inr result :: 'e thrown + string option) \<Longrightarrow>
   fst (swapOutfit_any generateContent w base64Image mt description) = Inr result"
  by (simp add: swapOutfit_any_def Let_def)

lemma nullish_index0: "nullish x \<Longrightarrow> nullable_index0 x = Undefined"
  by (cases x) simp_all

lemma nullish_field: "nullish x \<Longrightarrow> nullable_field x f = Undefined"
  by (cases x) simp_all

lemma nullish_or_empty: "nullish x \<Longrightarrow> nullable_or_empty x = []"
  by (cases x) simp_all

lemma missing_fields_give_no_parts:
  assumes "nullish (any_candidates response) \<or> any_candidates response = Defined []
           \<or> (\<exists>c cs. any_candidates response = Defined (c # cs)
                \<and> (nullish c
                    \<or> (\<exists>candidate. c = Defined candidate
                         \<and> (nullish (any_content candidate)
                             \<or> (\<exists>ct. any_content candidate = Defined ct \<and> nullish (any_parts ct))))))"
  shows "nullable_or_empty
           (nullable_field (nullable_field (nullable_index0 (any_candidates response)) any_content)
              any_parts) = []"
  using assms
  by (auto simp: nullish_index0 nullish_field nullish_or_empty)

lemma transformToArtisticStyle_scan_any_objects:
  "\<forall>q\<in>set ps. \<exists>p. q = Defined p \<Longrightarrow>
   \<exists>v. transformToArtisticStyle_scan_any ps = (Inr v :: 'e thrown + string option)"
proof (induction ps)
  case Nil
  then show ?case by simp
next
  case (Cons q ps)
  then obtain p where "q = Defined p" by auto
  with Cons show ?case by (cases "any_inlineData p") simp_all
qed

lemma swapOutfit_scan_any_objects:
  "\<forall>q\<in>set ps. \<exists>p. q = Defined p \<Longrightarrow>
   \<exists>v. swapOutfit_scan_any ps = (Inr v :: 'e thrown + string option)"
proof (induction ps)
  case Nil
  then show ?case by simp
next
  case (Cons q ps)
  then obtain p where "q = Defined p" by auto
  with Cons show ?case by (cases "any_inlineData p") simp_all
qed

text \<open>On the declared shape the wider reading of the code computes what the first one does.\<close>

lemma transformToArtisticStyle_scan_any_widen:
  "transformToArtisticStyle_scan_any (map (\<lambda>p. Defined (widen_part p)) ps)
     = Inr (transformToArtisticStyle_scan ps)"
proof (induction ps)
  case Nil
  then show ?case by simp
next
  case (Cons p ps)
  show ?case
  proof (cases "inlineData p")
    case None
    with Cons show ?thesis by (simp add: widen_part_def)
  next
    case (Some b)
    have "nullable_template_hole (of_option x) = template_hole x" for x
      by (cases x) simp_all
    with Some show ?thesis by (simp add: widen_part_def widen_blob_def)
  qed
qed

lemma swapOutfit_scan_any_widen:
  "swapOutfit_scan_any (map (\<lambda>p. Defined (widen_part p)) ps) = Inr (swapOutfit_scan ps)"
proof (induction ps)
  case Nil
  then show ?case by simp
next
  case (Cons p ps)
  show ?case
  proof (cases "inlineData p")
    case None
    with Cons show ?thesis by (simp add: widen_part_def)
  next
    case (Some b)
    have "nullable_template_hole (of_option x) = template_hole x" for x
      by (cases x) simp_all
    with Some show ?thesis by (simp add: widen_part_def widen_blob_def)
  qed
qed

lemma widen_response_parts:
  "nullable_or_empty
     (nullable_field (nullable_field (nullable_index0 (any_candidates (widen_response r))) any_content)
        any_parts)
   = map (\<lambda>p. Defined (widen_part p))
       (or_empty (opt_field (opt_field (opt_index0 (candidates r)) content) parts))"
proof (cases "candidates r")
  case None
  then show ?thesis by (simp add: widen_response_def)
next
  case (Some cands)
  show ?thesis
  proof (cases cands)
    case Nil
    with Some show ?thesis by (simp add: widen_response_def)
  next
    case (Cons c cs)
    show ?thesis
    proof (cases "content c")
      case None
      with Some Cons show ?thesis by (simp add: widen_response_def widen_candidate_def)
    next
      case ct: (Some ct)
      with Some Cons show ?thesis
        by (cases "parts ct") (simp_all add: widen_response_def widen_candidate_def widen_content_def)
    qed
  qed
qed

lemma transformToArtisticStyle_any_widen:
  "catalog w' = catalog w \<Longrightarrow>
   fst (transformToArtisticStyle_any (widen_service generateContent) w' base64Image mt style)
     = (case fst (transformToArtisticStyle generateContent w base64Image mt style) of
          Inl cause \<Rightarrow> Inl (Cause cause)
        | Inr result \<Rightarrow> Inr result)"
  by (simp add: transformToArtisticStyle_any_def transformToArtisticStyle_def
        transformToArtisticStyle_request_def widen_service_def Let_def widen_response_parts
        transformToArtisticStyle_scan_any_widen split: sum.splits)

lemma swapOutfit_any_widen:
  "fst (swapOutfit_any (widen_service generateContent) w' base64Image mt description)
     = (case fst (swapOutfit generateContent w base64Image mt description) of
          Inl cause \<Rightarrow> Inl (Cause cause)
        | Inr result \<Rightarrow> Inr result)"
  by (simp add: swapOutfit_any_def swapOutfit_def widen_service_def Let_def widen_response_parts
        swapOutfit_scan_any_widen split: sum.splits)

text \<open>A null field prints as the word null, an absent one as the word undefined.\<close>

lemma scan_any_prints_null_and_undefined:
  "transformToArtisticStyle_scan_any
     [Defined \<lparr>any_inlineData = Defined \<lparr>any_data = Undefined, any_mimeType = Null\<rparr>\<rparr>]
   = Inr (Some ''data:null;base64,undefined'')"
  "swapOutfit_scan_any
     [Defined \<lparr>any_inlineData = Defined \<lparr>any_data = Undefined, any_mimeType = Null\<rparr>\<rparr>]
   = Inr (Some ''data:null;base64,undefined'')"
  by simp_all

subsection \<open>Missing fields in the response\<close>

text \<open>
  C9, as the claim states it: on any response shape the extraction returns null rather
  than throw. It fails on a response whose parts list holds null: the loop reads
  \<^verbatim>\<open>part.inlineData\<close> unguarded, the TypeError is caught, logged and rethrown, and both
  operations reject.
\<close>

theorem C9_null_part_throws_counterexample:
  "fst (transformToArtisticStyle_any
          (respond_with_any
             (Defined \<lparr>any_candidates = Defined [Defined \<lparr>any_content =
                Defined \<lparr>any_parts = Defined [Null]\<rparr>\<rparr>]\<rparr>))
          (module_init :: string thrown world) (Some ''AAAA'') ''image/png'' oil)
     = Inl TypeError
   \<and> console (snd (transformToArtisticStyle_any
          (respond_with_any
             (Defined \<lparr>any_candidates = Defined [Defined \<lparr>any_content =
                Defined \<lparr>any_parts = Defined [Null]\<rparr>\<rparr>]\<rparr>))
          (module_init :: string thrown world) (Some ''AAAA'') ''image/png'' oil))
     = [[Str ''Error transforming image:'', Caught TypeError]]
   \<and> fst (swapOutfit_any
          (respond_with_any
             (Defined \<lparr>any_candidates = Defined [Defined \<lparr>any_content =
                Defined \<lparr>any_parts = Defined [Null]\<rparr>\<rparr>]\<rparr>))
          (module_init :: string thrown world) (Some ''AAAA'') ''image/png'' ''a scarf'')
     = Inl TypeError
   \<and> console (snd (swapOutfit_any
          (respond_with_any
             (Defined \<lparr>any_candidates = Defined [Defined \<lparr>any_content =
                Defined \<lparr>any_parts = Defined [Null]\<rparr>\<rparr>]\<rparr>))
          (module_init :: string thrown world) (Some ''AAAA'') ''image/png'' ''a scarf''))
     = [[Str ''Error swapping outfit:'', Caught TypeError]]"
  by (simp add: transformToArtisticStyle_any_def swapOutfit_any_def respond_with_any_def
        module_init_def Let_def)

text \<open>
  C9, amended: the missing-field cases are guarded. When the awaited response is an object
  and it has no candidates (the list is absent, null or empty), or its first candidate is
  absent or null, or has no content, or that content has no parts list, both operations
  resolve with null. And when the first candidate's parts list holds objects only, both
  operations resolve. The elements of the parts list are read unguarded, so the
  extraction is not total beyond that.
\<close>

theorem C9_missing_fields_guarded:
  fixes generateContent :: "'e any_service"
  assumes "generateContent (transformToArtisticStyle_request w base64Image mt style)
             = Inr (Defined response)"
    and "generateContent (swapOutfit_request base64Image mt description) = Inr (Defined response)"
  shows "(nullish (any_candidates response) \<or> any_candidates response = Defined []
           \<or> (\<exists>c cs. any_candidates response = Defined (c # cs)
                \<and> (nullish c
                    \<or> (\<exists>candidate. c = Defined candidate
                         \<and> (nullish (any_content candidate)
                             \<or> (\<exists>ct. any_content candidate = Defined ct \<and> nullish (any_parts ct))))))
          \<longrightarrow> fst (transformToArtisticStyle_any generateContent w base64Image mt style) = Inr None
            \<and> fst (swapOutfit_any generateContent w base64Image mt description) = Inr None)
       \<and> ((\<exists>candidate cs ct ps. any_candidates response = Defined (Defined candidate # cs)
                \<and> any_content candidate = Defined ct \<and> any_parts ct = Defined ps
                \<and> (\<forall>q\<in>set ps. \<exists>p. q = Defined p))
          \<longrightarrow> (\<exists>v. fst (transformToArtisticStyle_any generateContent w base64Image mt style) = Inr v)
            \<and> (\<exists>v. fst (swapOutfit_any generateContent w base64Image mt description) = Inr v))"
proof (intro conjI impI)
  assume "nullish (any_candidates response) \<or> any_candidates response = Defined []
           \<or> (\<exists>c cs. any_candidates response = Defined (c # cs)
                \<and> (nullish c
                    \<or> (\<exists>candidate. c = Defined candidate
                         \<and> (nullish (any_content candidate)
                             \<or> (\<exists>ct. any_content candidate = Defined ct \<and> nullish (any_parts ct))))))"
  then have ps: "nullable_or_empty
           (nullable_field (nullable_field (nullable_index0 (any_candidates response)) any_content)
              any_parts) = []"
    by (rule missing_fields_give_no_parts)
  show "fst (transformToArtisticStyle_any generateContent w base64Image mt style) = Inr None"
    using assms(1) ps by (simp add: transformToArtisticStyle_any_resolved)
  show "fst (swapOutfit_any generateContent w base64Image mt description) = Inr None"
    using assms(2) ps by (simp add: swapOutfit_any_resolved)
next
  assume "\<exists>candidate cs ct ps. any_candidates response = Defined (Defined candidate # cs)
                \<and> any_content candidate = Defined ct \<and> any_parts ct = Defined ps
                \<and> (\<forall>q\<in>set ps. \<exists>p. q = Defined p)"
  then obtain candidate cs ct ps where
    path: "any_candidates response = Defined (Defined candidate # cs)"
      "any_content candidate = Defined ct" "any_parts ct = Defined ps"
    and objects: "\<forall>q\<in>set ps. \<exists>p. q = Defined p"
    by blast
  have ps: "nullable_or_empty
           (nullable_field (nullable_field (nullable_index0 (any_candidates response)) any_content)
              any_parts) = ps"
    using path by simp
  obtain v1 where v1: "transformToArtisticStyle_scan_any ps = (Inr v1 :: 'e thrown + string option)"
    using transformToArtisticStyle_scan_any_objects[OF objects] by blast
  obtain v2 where v2: "swapOutfit_scan_any ps = (Inr v2 :: 'e thrown + string option)"
    using swapOutfit_scan_any_objects[OF objects] by blast
  show "\<exists>v. fst (transformToArtisticStyle_any generateContent w base64Image mt style) = Inr v"
    using assms(1) ps v1 by (simp add: transformToArtisticStyle_any_resolved)
  show "\<exists>v. fst (swapOutfit_any generateContent w base64Image mt description) = Inr v"
    using assms(2) ps v2 by (simp add: swapOutfit_any_resolved)
qed

theorem C9_missing_fields_guarded_witness:
  "fst (transformToArtisticStyle_any
          (respond_with_any (Defined \<lparr>any_candidates = Defined [Defined \<lparr>any_content = Null\<rparr>]\<rparr>))
          (module_init :: string thrown world) (Some ''AAAA'') ''image/png'' popart) = Inr None
   \<and> fst (swapOutfit_any
          (respond_with_any (Defined \<lparr>any_candidates = Defined [Defined \<lparr>any_content = Null\<rparr>]\<rparr>))
          (module_init :: string thrown world) (Some ''AAAA'') ''image/png'' ''a scarf'') = Inr None
   \<and> fst (transformToArtisticStyle_any
          (respond_with_any (Defined \<lparr>any_candidates = Undefined\<rparr>))
          (module_init :: string thrown world) (Some ''AAAA'') ''image/png'' popart) = Inr None
   \<and> fst (swapOutfit_any
          (respond_with_any (Defined \<lparr>any_candidates = Undefined\<rparr>))
          (module_init :: string thrown world) (Some ''AAAA'') ''image/png'' ''a scarf'') = Inr None
   \<and> (\<exists>v. fst (transformToArtisticStyle_any
          (respond_with_any (Defined \<lparr>any_candidates = Defined [Defined \<lparr>any_content =
             Defined \<lparr>any_parts = Defined [Defined \<lparr>any_inlineData = Null\<rparr>]\<rparr>\<rparr>]\<rparr>))
          (module_init :: string thrown world) (Some ''AAAA'') ''image/png'' popart) = Inr v)
   \<and> (\<exists>v. fst (swapOutfit_any
          (respond_with_any (Defined \<lparr>any_candidates = Defined [Defined \<lparr>any_content =
             Defined \<lparr>any_parts = Defined [Defined \<lparr>any_inlineData = Null\<rparr>]\<rparr>\<rparr>]\<rparr>))
          (module_init :: string thrown world) (Some ''AAAA'') ''image/png'' ''a scarf'') = Inr v)"
proof -
  let ?r1 = "\<lparr>any_candidates = Defined [Defined \<lparr>any_content = Null\<rparr>]\<rparr>"
  let ?r2 = "\<lparr>any_candidates = Undefined\<rparr>"
  let ?ps = "[Defined \<lparr>any_inlineData = Null\<rparr>]"
  let ?r3 = "\<lparr>any_candidates = Defined [Defined \<lparr>any_content =
               Defined \<lparr>any_parts = Defined ?ps\<rparr>\<rparr>]\<rparr>"
  let ?w = "module_init :: string thrown world"
  have a: "respond_with_any (Defined r)
             (transformToArtisticStyle_request ?w (Some ''AAAA'') ''image/png'' popart)
           = (Inr (Defined r) :: string + AnyResponse nullable)" for r
    by (simp add: respond_with_any_def)
  have b: "respond_with_any (Defined r) (swapOutfit_request (Some ''AAAA'') ''image/png'' ''a scarf'')
           = (Inr (Defined r) :: string + AnyResponse nullable)" for r
    by (simp add: respond_with_any_def)
  note first_without_content =
    C9_missing_fields_guarded
      [where generateContent = "respond_with_any (Defined ?r1)" and response = ?r1 and w = ?w
         and base64Image = "Some ''AAAA''" and mt = "''image/png''" and style = popart
         and description = "''a scarf''", OF a b]
  note no_candidates =
    C9_missing_fields_guarded
      [where generateContent = "respond_with_any (Defined ?r2)" and response = ?r2 and w = ?w
         and base64Image = "Some ''AAAA''" and mt = "''image/png''" and style = popart
         and description = "''a scarf''", OF a b]
  note parts_are_objects =
    C9_missing_fields_guarded
      [where generateContent = "respond_with_any (Defined ?r3)" and response = ?r3 and w = ?w
         and base64Image = "Some ''AAAA''" and mt = "''image/png''" and style = popart
         and description = "''a scarf''", OF a b]
  have path: "\<exists>candidate cs ct ps. any_candidates ?r3 = Defined (Defined candidate # cs)
                \<and> any_content candidate = Defined ct \<and> any_parts ct = Defined ps
                \<and> (\<forall>q\<in>set ps. \<exists>p. q = Defined p)"
    by simp
  from first_without_content have one: 
    "fst (transformToArtisticStyle_any (respond_with_any (Defined ?r1)) ?w (Some ''AAAA'') ''image/png'' popart)
       = Inr None
     \<and> fst (swapOutfit_any (respond_with_any (Defined ?r1)) ?w (Some ''AAAA'') ''image/png'' ''a scarf'')
       = Inr None"
    by simp
  from no_candidates have two:
    "fst (transformToArtisticStyle_any (respond_with_any (Defined ?r2)) ?w (Some ''AAAA'') ''image/png'' popart)
       = Inr None
     \<and> fst (swapOutfit_any (respond_with_any (Defined ?r2)) ?w (Some ''AAAA'') ''image/png'' ''a scarf'')
       = Inr None"
    by simp
  from parts_are_objects path have three:
    "(\<exists>v. fst (transformToArtisticStyle_any (respond_with_any (Defined ?r3)) ?w (Some ''AAAA'') ''image/png'' popart)
       = Inr v)
     \<and> (\<exists>v. fst (swapOutfit_any (respond_with_any (Defined ?r3)) ?w (Some ''AAAA'') ''image/png'' ''a scarf'')
       = Inr v)"
    by blast
  from one two three show ?thesis by blast
qed

subsection \<open>The two operations side by side\<close>

text \<open>
  C10: both operations name the model gemini-2.5-flash-image and send the same inline
  image part; their two loops compute the same function of the parts; so on one and the
  same response they return equal results, whatever the style and the description.
\<close>

theorem C10_operations_agree_on_equal_responses:
  "model (transformToArtisticStyle_request w base64Image mt style) = ''gemini-2.5-flash-image''
   \<and> model (swapOutfit_request base64Image mt description) = ''gemini-2.5-flash-image''
   \<and> map inlineData (or_empty (parts (contents (transformToArtisticStyle_request w base64Image mt style))))
     = map inlineData (or_empty (parts (contents (swapOutfit_request base64Image mt description))))
   \<and> transformToArtisticStyle_scan ps = swapOutfit_scan ps
   \<and> fst (transformToArtisticStyle (respond_with response) w base64Image mt style)
     = fst (swapOutfit (respond_with response) w base64Image mt description)"
proof (intro conjI)
  show "model (transformToArtisticStyle_request w base64Image mt style) = ''gemini-2.5-flash-image''"
    by (simp add: transformToArtisticStyle_request_def)
  show "model (swapOutfit_request base64Image mt description) = ''gemini-2.5-flash-image''"
    by (simp add: swapOutfit_request_def)
  show "map inlineData (or_empty (parts (contents (transformToArtisticStyle_request w base64Image mt style))))
     = map inlineData (or_empty (parts (contents (swapOutfit_request base64Image mt description))))"
    by (simp add: transformToArtisticStyle_request_def swapOutfit_request_def)
  show "transformToArtisticStyle_scan ps = swapOutfit_scan ps"
    by (rule scans_agree)
  show "fst (transformToArtisticStyle (respond_with response) w base64Image mt style)
     = fst (swapOutfit (respond_with response) w base64Image mt description)"
    by (simp add: transformToArtisticStyle_resolved swapOutfit_resolved respond_with_def scans_agree)
qed

subsection \<open>Effects on the module and the world\<close>

text \<open>
  C8, as the claim states it: a call leaves everything as it was but for the one request
  made. It fails when the request fails, since the catch block writes a line to the
  console before rethrowing.
\<close>

theorem C8_only_effect_is_request_counterexample:
  "snd (transformToArtisticStyle (fail_with ''ECONNRESET'') (module_init :: string world)
          (Some ''AAAA'') ''image/png'' oil)
     \<noteq> module_init\<lparr>calls := calls module_init
            @ [transformToArtisticStyle_request (module_init :: string world) (Some ''AAAA'') ''image/png'' oil]\<rparr>
   \<and> console (snd (transformToArtisticStyle (fail_with ''ECONNRESET'') (module_init :: string world)
          (Some ''AAAA'') ''image/png'' oil))
     = [[Str ''Error transforming image:'', Caught ''ECONNRESET'']]"
proof -
  have h: "fail_with ''ECONNRESET''
             (transformToArtisticStyle_request (module_init :: string world) (Some ''AAAA'') ''image/png'' oil)
           = Inl ''ECONNRESET''"
    by (simp add: fail_with_def)
  show ?thesis
    using h by (simp add: transformToArtisticStyle_rejected module_init_def)
qed

text \<open>
  C8, amended: neither operation changes the Prompt Catalog; each call makes exactly one
  call to the service; it writes to the console only when that call fails, and then one
  line holding the cause; and its result does not depend on the calls and console lines
  of earlier calls.
\<close>

theorem C8_effects_of_a_call:
  "catalog (snd (transformToArtisticStyle generateContent w base64Image mt style)) = catalog w
   \<and> catalog (snd (swapOutfit generateContent w base64Image mt description)) = catalog w
   \<and> calls (snd (transformToArtisticStyle generateContent w base64Image mt style))
       = calls w @ [transformToArtisticStyle_request w base64Image mt style]
   \<and> calls (snd (swapOutfit generateContent w base64Image mt description))
       = calls w @ [swapOutfit_request base64Image mt description]
   \<and> console (snd (transformToArtisticStyle generateContent w base64Image mt style))
       = (case generateContent (transformToArtisticStyle_request w base64Image mt style) of
            Inl cause \<Rightarrow> console w @ [[Str ''Error transforming image:'', Caught cause]]
          | Inr response \<Rightarrow> console w)
   \<and> console (snd (swapOutfit generateContent w base64Image mt description))
       = (case generateContent (swapOutfit_request base64Image mt description) of
            Inl cause \<Rightarrow> console w @ [[Str ''Error swapping outfit:'', Caught cause]]
          | Inr response \<Rightarrow> console w)
   \<and> fst (transformToArtisticStyle generateContent (w\<lparr>calls := cs, console := ls\<rparr>) base64Image mt style)
       = fst (transformToArtisticStyle generateContent w base64Image mt style)
   \<and> fst (swapOutfit generateContent (w\<lparr>calls := cs, console := ls\<rparr>) base64Image mt description)
       = fst (swapOutfit generateContent w base64Image mt description)"
proof (intro conjI)
  show "catalog (snd (transformToArtisticStyle generateContent w base64Image mt style)) = catalog w"
    by (rule transformToArtisticStyle_catalog)
  show "catalog (snd (swapOutfit generateContent w base64Image mt description)) = catalog w"
    by (rule swapOutfit_catalog)
  show "calls (snd (transformToArtisticStyle generateContent w base64Image mt style))
       = calls w @ [transformToArtisticStyle_request w base64Image mt style]"
    by (rule transformToArtisticStyle_calls)
  show "calls (snd (swapOutfit generateContent w base64Image mt description))
       = calls w @ [swapOutfit_request base64Image mt description]"
    by (rule swapOutfit_calls)
  show "console (snd (transformToArtisticStyle generateContent w base64Image mt style))
       = (case generateContent (transformToArtisticStyle_request w base64Image mt style) of
            Inl cause \<Rightarrow> console w @ [[Str ''Error transforming image:'', Caught cause]]
          | Inr response \<Rightarrow> console w)"
    by (rule transformToArtisticStyle_console)
  show "console (snd (swapOutfit generateContent w base64Image mt description))
       = (case generateContent (swapOutfit_request base64Image mt description) of
            Inl cause \<Rightarrow> console w @ [[Str ''Error swapping outfit:'', Caught cause]]
          | Inr response \<Rightarrow> console w)"
    by (rule swapOutfit_console)
  show "fst (transformToArtisticStyle generateContent (w\<lparr>calls := cs, console := ls\<rparr>) base64Image mt style)
       = fst (transformToArtisticStyle generateContent w base64Image mt style)"
    by (rule transformToArtisticStyle_history_free)
  show "fst (swapOutfit generateContent (w\<lparr>calls := cs, console := ls\<rparr>) base64Image mt description)
       = fst (swapOutfit generateContent w base64Image mt description)"
    using swapOutfit_history_free[where w = w and k = "catalog w"] by simp
qed

subsection \<open>Helper lemmas: the call site\<close>

lemma handleTransform_outfit:
  assumes "originalImage s = Some original" and "original \<noteq> []" and "mode s = mode_outfit"
  shows "handleTransform generateContent (s, w) =
     (if trim (outfitDescription s) = []
      then (s\<lparr>isProcessing := False, error := Some ''Please provide an outfit description.''\<rparr>, w)
      else handleTransform_settle (s\<lparr>isProcessing := True, error := None\<rparr>)
             (swapOutfit generateContent w
                (opt_index0 (Some (snd (split_comma original))))
                (case match_colon_semicolon (fst (split_comma original)) of
                   None \<Rightarrow> ''image/png''
                 | Some g \<Rightarrow> if g = [] then ''image/png'' else g)
                (outfitDescription s)))"
  using assms by (simp add: Let_def split: prod.splits)

lemma split_comma_data_url:
  "split_comma ''data:image/png;base64,QUJD'' = (''data:image/png;base64'', [''QUJD''])"
  by simp

lemma match_colon_semicolon_data_url:
  "match_colon_semicolon ''data:image/png;base64'' = Some ''image/png''"
  by (simp add: is_line_terminator_def)

lemma trim_examples:
  "trim [CHR 0x20, CHR 0x09, CHR 0x0A] = []"
  "trim '' a red coat '' = ''a red coat''"
  by (simp_all add: trim_def is_white_space_def)

subsection \<open>Validation of the outfit description\<close>

text \<open>
  C7: swapOutfit does not look at the description: whatever it is, the empty string
  included, the request is made. The call site, in outfit mode with an image loaded,
  tests the trimmed description first: when it is empty it sets the error message,
  clears the in-flight flag and returns without calling the adapter (the world is
  unchanged); otherwise it calls swapOutfit with the description.
\<close>

theorem C7_description_checked_by_call_site_only:
  assumes "originalImage s = Some original" and "original \<noteq> []" and "mode s = mode_outfit"
  shows "calls (snd (swapOutfit generateContent w base64Image mt description))
           = calls w @ [swapOutfit_request base64Image mt description]
       \<and> calls (snd (swapOutfit generateContent w base64Image mt []))
           = calls w @ [swapOutfit_request base64Image mt []]
       \<and> (if trim (outfitDescription s) = []
          then handleTransform generateContent (s, w)
                 = (s\<lparr>isProcessing := False,
                      error := Some ''Please provide an outfit description.''\<rparr>, w)
          else \<exists>b m. handleTransform generateContent (s, w)
                 = handleTransform_settle (s\<lparr>isProcessing := True, error := None\<rparr>)
                     (swapOutfit generateContent w b m (outfitDescription s)))"
proof (intro conjI)
  show "calls (snd (swapOutfit generateContent w base64Image mt description))
           = calls w @ [swapOutfit_request base64Image mt description]"
    by (rule swapOutfit_calls)
  show "calls (snd (swapOutfit generateContent w base64Image mt []))
           = calls w @ [swapOutfit_request base64Image mt []]"
    by (rule swapOutfit_calls)
  show "if trim (outfitDescription s) = []
          then handleTransform generateContent (s, w)
                 = (s\<lparr>isProcessing := False,
                      error := Some ''Please provide an outfit description.''\<rparr>, w)
          else \<exists>b m. handleTransform generateContent (s, w)
                 = handleTransform_settle (s\<lparr>isProcessing := True, error := None\<rparr>)
                     (swapOutfit generateContent w b m (outfitDescription s))"
  proof (cases "trim (outfitDescription s) = []")
    case True
    then show ?thesis
      using handleTransform_outfit[OF assms, of generateContent w] by simp
  next
    case False
    then have "handleTransform generateContent (s, w)
                 = handleTransform_settle (s\<lparr>isProcessing := True, error := None\<rparr>)
                     (swapOutfit generateContent w
                        (opt_index0 (Some (snd (split_comma original))))
                        (case match_colon_semicolon (fst (split_comma original)) of
                           None \<Rightarrow> ''image/png''
                         | Some g \<Rightarrow> if g = [] then ''image/png'' else g)
                        (outfitDescription s))"
      using handleTransform_outfit[OF assms, of generateContent w] by simp
    then have "\<exists>b m. handleTransform generateContent (s, w)
                 = handleTransform_settle (s\<lparr>isProcessing := True, error := None\<rparr>)
                     (swapOutfit generateContent w b m (outfitDescription s))"
      by blast
    with False show ?thesis by simp
  qed
qed

theorem C7_description_checked_by_call_site_only_witness:
  "handleTransform (respond_with (response_of [image_part ''image/png'' ''WFla'']))
     (\<lparr>originalImage = Some ''data:image/png;base64,QUJD'', transformedImage = None,
       selectedStyle = watercolor, outfitDescription = [CHR 0x20, CHR 0x09, CHR 0x0A],
       mode = mode_outfit, isProcessing = False, error = None\<rparr>,
      module_init :: string world)
   = (\<lparr>originalImage = Some ''data:image/png;base64,QUJD'', transformedImage = None,
       selectedStyle = watercolor, outfitDescription = [CHR 0x20, CHR 0x09, CHR 0x0A],
       mode = mode_outfit, isProcessing = False,
       error = Some ''Please provide an outfit description.''\<rparr>,
      module_init)
   \<and> calls (snd (swapOutfit (respond_with (response_of [image_part ''image/png'' ''WFla'']))
                   (module_init :: string world) (Some ''QUJD'') ''image/png'' []))
     = [swapOutfit_request (Some ''QUJD'') ''image/png'' []]"
proof -
  let ?s = "\<lparr>originalImage = Some ''data:image/png;base64,QUJD'', transformedImage = None,
       selectedStyle = watercolor, outfitDescription = [CHR 0x20, CHR 0x09, CHR 0x0A],
       mode = mode_outfit, isProcessing = False, error = None\<rparr>"
  have h1: "originalImage ?s = Some ''data:image/png;base64,QUJD''" by simp
  have h2: "''data:image/png;base64,QUJD'' \<noteq> []" by simp
  have h3: "mode ?s = mode_outfit" by simp
  have blank: "trim (outfitDescription ?s) = []" by (simp add: trim_examples)
  note at_blank =
    C7_description_checked_by_call_site_only
      [where s = ?s and original = "''data:image/png;base64,QUJD''"
         and generateContent = "respond_with (response_of [image_part ''image/png'' ''WFla''])"
         and w = "module_init :: string world" and base64Image = "Some ''QUJD''"
         and mt = "''image/png''" and description = "[]", OF h1 h2 h3]
  from at_blank blank show ?thesis by (simp add: module_init_def)
qed

text \<open>
  The call site on a data URL as the file reader produces it: the media type and the
  bytes are taken apart, the adapter is called once, and the returned image is stored.
\<close>

lemma handleTransform_outfit_example:
  "handleTransform (respond_with (response_of [image_part ''image/png'' ''WFla'']))
     (\<lparr>originalImage = Some ''data:image/png;base64,QUJD'', transformedImage = None,
       selectedStyle = watercolor, outfitDescription = ''a red coat'',
       mode = mode_outfit, isProcessing = False, error = None\<rparr>,
      module_init :: string world)
   = (\<lparr>originalImage = Some ''data:image/png;base64,QUJD'',
       transformedImage = Some ''data:image/png;base64,WFla'',
       selectedStyle = watercolor, outfitDescription = ''a red coat'',
       mode = mode_outfit, isProcessing = False, error = None\<rparr>,
      module_init\<lparr>calls := [swapOutfit_request (Some ''QUJD'') ''image/png'' ''a red coat'']\<rparr>)"
  by (simp add: handleTransform_outfit split_comma_data_url match_colon_semicolon_data_url
        trim_def is_white_space_def swapOutfit_resolved respond_with_def response_of_def
        image_part_def handleTransform_settle_def module_init_def
      del: handleTransform.simps split_comma.simps match_colon_semicolon.simps)

subsection \<open>The Prompt Catalog\<close>

text \<open>
  C4: for every style of the closed set, looking the style up in the Prompt Catalog gives a
  non-empty instruction string that contains the word Transform. The lookup is a total
  function of the style alone.
\<close>

theorem C4_catalog_total_nonempty_Transform:
  "STYLE_PROMPTS style \<noteq> [] \<and> sublist ''Transform'' (STYLE_PROMPTS style)"
  by (cases style) simp_all

end
